theory Spec2Isabelle
  imports Complex_Main
begin

section \<open>JavaScript values\<close>

text \<open>
  A JavaScript number is NaN, one of the two infinities, or a finite value. Finite values
  are kept as exact rationals: rounding to the nearest double and overflow are not
  modelled, and the two zeros are one value. The special values follow IEEE 754 as
  ECMAScript prescribes it.
\<close>

datatype jsnum = NaN | NegInf | Fin rat | PosInf

fun isNaN :: "jsnum \<Rightarrow> bool" where
  "isNaN NaN = True"
| "isNaN _ = False"


fun js_neg :: "jsnum \<Rightarrow> jsnum" where
  "js_neg NaN = NaN"
| "js_neg NegInf = PosInf"
| "js_neg PosInf = NegInf"
| "js_neg (Fin a) = Fin (- a)"


text \<open>The operator \<^verbatim>\<open>*\<close> on numbers: an infinity times zero is NaN.\<close>

definition inf_signed :: "bool \<Rightarrow> jsnum" where
  "inf_signed positive = (if positive then PosInf else NegInf)"

fun js_mul :: "jsnum \<Rightarrow> jsnum \<Rightarrow> jsnum" where
  "js_mul (Fin a) (Fin b) = Fin (a * b)"
| "js_mul (Fin a) PosInf = (if a = 0 then NaN else inf_signed (0 < a))"
| "js_mul (Fin a) NegInf = (if a = 0 then NaN else inf_signed (a < 0))"
| "js_mul PosInf (Fin b) = (if b = 0 then NaN else inf_signed (0 < b))"
| "js_mul NegInf (Fin b) = (if b = 0 then NaN else inf_signed (b < 0))"
| "js_mul PosInf PosInf = PosInf"
| "js_mul NegInf NegInf = PosInf"
| "js_mul PosInf NegInf = NegInf"
| "js_mul NegInf PosInf = NegInf"
| "js_mul NaN y = NaN"
| "js_mul x NaN = NaN"

text \<open>The comparison \<^verbatim>\<open>x < y\<close>: false as soon as one side is NaN.\<close>

fun js_lt :: "jsnum \<Rightarrow> jsnum \<Rightarrow> bool" where
  "js_lt NaN y = False"
| "js_lt x NaN = False"
| "js_lt PosInf y = False"
| "js_lt x NegInf = False"
| "js_lt NegInf y = True"
| "js_lt x PosInf = True"
| "js_lt (Fin a) (Fin b) = (a < b)"



text \<open>\<^verbatim>\<open>Math.max(x, y)\<close>: NaN if either argument is NaN.\<close>

definition Math_max :: "jsnum \<Rightarrow> jsnum \<Rightarrow> jsnum" where
  "Math_max x y = (if isNaN x \<or> isNaN y then NaN else if js_lt x y then y else x)"

text \<open>
  Values: the primitives, arrays and plain objects (an association list of the object's
  own members, the first binding of a key being the member). Strings are lists of code
  units below 256. Plain objects are data: none has a member \<^verbatim>\<open>toString\<close> or
  \<^verbatim>\<open>valueOf\<close> of its own.
\<close>

datatype jsval =
    JUndefined
  | JNull
  | JBool bool
  | JNum jsnum
  | JStr string
  | JArr "jsval list"
  | JObj "(string \<times> jsval) list"

text \<open>ToBoolean, the test behind \<^verbatim>\<open>!v\<close>, \<^verbatim>\<open>a && b\<close> and \<^verbatim>\<open>a || b\<close>.\<close>

fun truthy :: "jsval \<Rightarrow> bool" where
  "truthy JUndefined = False"
| "truthy JNull = False"
| "truthy (JBool b) = b"
| "truthy (JNum n) = (n \<noteq> NaN \<and> n \<noteq> Fin 0)"
| "truthy (JStr s) = (s \<noteq> [])"
| "truthy (JArr _) = True"
| "truthy (JObj _) = True"

definition js_or :: "jsval \<Rightarrow> jsval \<Rightarrow> jsval" where
  "js_or a b = (if truthy a then a else b)"

definition js_and :: "jsval \<Rightarrow> jsval \<Rightarrow> jsval" where
  "js_and a b = (if truthy a then b else a)"

definition nullish_or :: "jsval \<Rightarrow> jsval \<Rightarrow> jsval" where
  "nullish_or a b = (if a = JUndefined \<or> a = JNull then b else a)"

section \<open>Numeric literals in strings\<close>

definition is_ws :: "char \<Rightarrow> bool" where
  "is_ws c = (of_char c \<in> {9, 10, 11, 12, 13, 32, 160 :: nat})"

definition is_digit :: "char \<Rightarrow> bool" where
  "is_digit c = (48 \<le> (of_char c :: nat) \<and> (of_char c :: nat) \<le> 57)"

definition digit_val :: "char \<Rightarrow> nat" where
  "digit_val c = of_char c - 48"

definition digits_val :: "string \<Rightarrow> nat" where
  "digits_val ds = foldl (\<lambda>a c. 10 * a + digit_val c) 0 ds"

definition trimStart :: "string \<Rightarrow> string" where
  "trimStart s = dropWhile is_ws s"

definition trim :: "string \<Rightarrow> string" where
  "trim s = rev (dropWhile is_ws (rev (dropWhile is_ws s)))"

definition pow10 :: "int \<Rightarrow> rat" where
  "pow10 e = (if 0 \<le> e then 10 ^ nat e else 1 / 10 ^ nat (- e))"

text \<open>
  The exponent part of a decimal literal at the head of a string: the exponent and the
  rest of the string. An \<^verbatim>\<open>e\<close> with no digit after it is not part of the literal.
\<close>

definition exponent_part :: "string \<Rightarrow> int \<times> string" where
  "exponent_part s =
     (case s of
        [] \<Rightarrow> (0, s)
      | c # r \<Rightarrow>
          if c = CHR ''e'' \<or> c = CHR ''E'' then
            (let neg = (r \<noteq> [] \<and> hd r = CHR ''-'');
                 r' = (if r \<noteq> [] \<and> (hd r = CHR ''+'' \<or> hd r = CHR ''-'') then tl r else r);
                 ds = takeWhile is_digit r'
             in if ds = [] then (0, s)
                else ((if neg then - int (digits_val ds) else int (digits_val ds)),
                      dropWhile is_digit r'))
          else (0, s))"

text \<open>
  The longest prefix of a string that is a StrUnsignedDecimalLiteral of ECMAScript
  (\<^verbatim>\<open>Infinity\<close>, or digits with an optional fraction and exponent), with its value
  and the rest of the string.
\<close>

definition unsigned_literal :: "string \<Rightarrow> (jsnum \<times> string) option" where
  "unsigned_literal s =
     (if take 8 s = ''Infinity'' then Some (PosInf, drop 8 s)
      else
        let ip = takeWhile is_digit s;
            r1 = dropWhile is_digit s;
            dot = (r1 \<noteq> [] \<and> hd r1 = CHR ''.'' \<and>
                   (ip \<noteq> [] \<or> (tl r1 \<noteq> [] \<and> is_digit (hd (tl r1)))));
            fp = (if dot then takeWhile is_digit (tl r1) else []);
            r2 = (if dot then dropWhile is_digit (tl r1) else r1)
        in if ip = [] \<and> fp = [] then None
           else
             let (e, r3) = exponent_part r2;
                 mant = of_nat (digits_val ip) + of_nat (digits_val fp) / 10 ^ length fp
             in Some (Fin (mant * pow10 e), r3))"

definition signed_literal :: "string \<Rightarrow> (jsnum \<times> string) option" where
  "signed_literal s =
     (case s of
        [] \<Rightarrow> None
      | c # r \<Rightarrow>
          if c = CHR ''+'' then unsigned_literal r
          else if c = CHR ''-'' then map_option (\<lambda>(v, t). (js_neg v, t)) (unsigned_literal r)
          else unsigned_literal s)"

text \<open>\<^verbatim>\<open>Number.parseFloat\<close>: leading white space is skipped, trailing text is ignored.\<close>

definition parseFloat :: "string \<Rightarrow> jsnum" where
  "parseFloat s = (case signed_literal (trimStart s) of None \<Rightarrow> NaN | Some (v, _) \<Rightarrow> v)"

text \<open>
  StringToNumber, the conversion \<^verbatim>\<open>Number(s)\<close> of a string: the whole trimmed string
  must be a literal, the empty string is 0, and unsigned literals in radix 16, 8 and 2 are
  read too.
\<close>

definition radix_digit :: "char \<Rightarrow> nat option" where
  "radix_digit c =
     (let n = (of_char c :: nat)
      in if 48 \<le> n \<and> n \<le> 57 then Some (n - 48)
         else if 97 \<le> n \<and> n \<le> 102 then Some (n - 87)
         else if 65 \<le> n \<and> n \<le> 70 then Some (n - 55)
         else None)"

definition radix_literal :: "nat \<Rightarrow> string \<Rightarrow> jsnum" where
  "radix_literal b ds =
     (if ds \<noteq> [] \<and> list_all (\<lambda>c. case radix_digit c of None \<Rightarrow> False | Some d \<Rightarrow> d < b) ds
      then Fin (of_nat (foldl (\<lambda>a c. b * a + the (radix_digit c)) 0 ds))
      else NaN)"

definition StringToNumber :: "string \<Rightarrow> jsnum" where
  "StringToNumber s =
     (let t = trim s
      in if t = [] then Fin 0
         else if take 2 t = ''0x'' \<or> take 2 t = ''0X'' then radix_literal 16 (drop 2 t)
         else if take 2 t = ''0o'' \<or> take 2 t = ''0O'' then radix_literal 8 (drop 2 t)
         else if take 2 t = ''0b'' \<or> take 2 t = ''0B'' then radix_literal 2 (drop 2 t)
         else (case signed_literal t of Some (v, []) \<Rightarrow> v | _ \<Rightarrow> NaN))"

text \<open>
  ToNumber, the conversion \<^verbatim>\<open>Number(v)\<close>. An array is converted through its string,
  the members joined by commas: the empty array gives 0, an array of one member gives what
  the member's string gives (the string of a number reads back as that number, the string
  of \<^verbatim>\<open>null\<close> or \<^verbatim>\<open>undefined\<close> inside an array is empty), and a string with
  a comma is no literal. The string of a plain object is \<^verbatim>\<open>[object Object]\<close>.
\<close>

fun Number :: "jsval \<Rightarrow> jsnum" where
  "Number JUndefined = NaN"
| "Number JNull = Fin 0"
| "Number (JBool b) = (if b then Fin 1 else Fin 0)"
| "Number (JNum n) = n"
| "Number (JStr s) = StringToNumber s"
| "Number (JObj _) = NaN"
| "Number (JArr []) = Fin 0"
| "Number (JArr [JUndefined]) = Fin 0"
| "Number (JArr [JNull]) = Fin 0"
| "Number (JArr [JBool b]) = NaN"
| "Number (JArr [JNum n]) = n"
| "Number (JArr [JStr s]) = StringToNumber s"
| "Number (JArr [JObj m]) = NaN"
| "Number (JArr [JArr xs]) = Number (JArr xs)"
| "Number (JArr (x # y # zs)) = NaN"

section \<open>The cart module\<close>

subsection \<open>safeNumber\<close>

definition safeNumber :: "jsval \<Rightarrow> jsnum" where
  "safeNumber v =
     (if v = JNull \<or> v = JUndefined then Fin 0
      else
        let num = (case v of JStr s \<Rightarrow> parseFloat s | _ \<Rightarrow> Number v)
        in if isNaN num then Fin 0 else num)"

subsection \<open>Cart items\<close>

text \<open>
  The interface \<^verbatim>\<open>CartItem\<close> and its product snapshot. The members are kept as
  values: the items come from the backend's JSON, and the module converts every member
  it reads.
\<close>

record Product =
  p_name :: jsval
  p_price :: jsval
  p_image_url :: jsval
  p_images :: jsval
  p_model :: jsval
  p_category :: jsval
  p_description :: jsval

record CartItem =
  item_id :: jsval
  product_id :: jsval
  quantity :: jsval
  color :: jsval
  name :: jsval
  price :: jsval
  image_url :: jsval
  item_total :: jsval
  product :: "Product option"

text \<open>\<^verbatim>\<open>item.product?.f\<close>: undefined when the item has no product.\<close>

definition product_member :: "CartItem \<Rightarrow> (Product \<Rightarrow> jsval) \<Rightarrow> jsval" where
  "product_member item f = (case product item of None \<Rightarrow> JUndefined | Some p \<Rightarrow> f p)"

text \<open>The callback of \<^verbatim>\<open>cartItems.map\<close> in \<^verbatim>\<open>getCart\<close>.\<close>

definition normalizeItem :: "CartItem \<Rightarrow> CartItem" where
  "normalizeItem item =
     (let safePrice = safeNumber (price item);
          safeQuantity = Math_max (Fin 1) (safeNumber (quantity item));
          calculatedTotal = js_mul safePrice safeQuantity
      in item\<lparr>
           price := JNum safePrice,
           quantity := JNum safeQuantity,
           item_total := js_or (JNum (safeNumber (item_total item))) (JNum calculatedTotal),
           product := Some \<lparr>
             p_name = js_or (product_member item p_name)
                        (js_or (name item) (JStr ''Unknown Product'')),
             p_price = JNum (safeNumber (js_or (product_member item p_price) (price item))),
             p_image_url = js_or (product_member item p_image_url)
                             (js_or (image_url item) (JStr ''/placeholder.svg'')),
             p_images = js_or (product_member item p_images)
                          (JArr [js_or (image_url item) (JStr ''/placeholder.svg'')]),
             p_model = js_or (product_member item p_model) (JStr ''Standard Model''),
             p_category = js_or (product_member item p_category) (JStr ''Electric Vehicle''),
             p_description = product_member item p_description
           \<rparr>
         \<rparr>)"

subsection \<open>The summary calculator\<close>









text \<open>A cart item given by its price, quantity and total, the other members absent.\<close>

definition item_of :: "jsval \<Rightarrow> jsval \<Rightarrow> jsval \<Rightarrow> CartItem" where
  "item_of p q t =
     \<lparr> item_id = JUndefined, product_id = JUndefined, quantity = q, color = JUndefined,
       name = JUndefined, price = p, image_url = JUndefined, total = t, product = None \<rparr>"

subsection \<open>Requests, responses and effects\<close>

text \<open>
  An asynchronous function resolves or rejects. What it does to the world is a list of
  effects, in order: the requests it sends, the events it dispatches on the window, its
  pauses, the functions of other modules it calls, and what it shows. Console output is
  left out.
\<close>

datatype error =
    Error string
  | ErrorOf jsval
  | TypeError
  | SyntaxError
  | RangeError
  | NetworkError
  | HttpError nat

datatype 'a outcome = Resolves 'a | Rejects error

datatype http_method = GET | POST | PUT | DELETE

record request =
  req_method :: http_method
  req_url :: string
  req_headers :: "(string \<times> string) list"
  req_body :: "jsval option"

datatype effect =
    Fetch request
  | Dispatch string
  | Sleep nat
  | Invoke string
  | Timer nat string
  | SetIsProcessing bool
  | ToastError string string
  | ToastOrderFailed error
  | ToastWarning string string
  | ToastOrderPlaced jsval
  | PushOrderSuccess jsval jsval

text \<open>
  The interface \<^verbatim>\<open>CartResponse\<close>. Its member \<^verbatim>\<open>data\<close> is absent, one item
  or an array of items.
\<close>

datatype cart_data = NoData | OneItem CartItem | Items "CartItem list"

record CartResponse =
  success :: bool
  message :: "string option"
  data :: cart_data
  deleted_items :: jsval

text \<open>
  A response of \<^verbatim>\<open>fetch\<close>: its status, its body as text, and the body parsed,
  \<open>None\<close> when \<^verbatim>\<open>response.json()\<close> rejects. A network is a function from the
  request to the response, \<open>None\<close> when \<^verbatim>\<open>fetch\<close> itself rejects.
\<close>

record 'b response =
  status :: nat
  text_body :: string
  json_body :: "'b option"

definition ok :: "('b, 'm) response_scheme \<Rightarrow> bool" where
  "ok r = (200 \<le> status r \<and> status r \<le> 299)"

type_synonym 'b network = "request \<Rightarrow> 'b response option"

text \<open>
  \<^verbatim>\<open>getAuthToken()\<close> gives a string or \<^verbatim>\<open>null\<close>; \<^verbatim>\<open>!token\<close> holds for
  \<^verbatim>\<open>null\<close> and for the empty string.
\<close>

definition no_token :: "string option \<Rightarrow> bool" where
  "no_token token = (case token of None \<Rightarrow> True | Some t \<Rightarrow> t = [])"

definition bearer :: "string option \<Rightarrow> string" where
  "bearer token = ''Bearer '' @ (case token of None \<Rightarrow> ''null'' | Some t \<Rightarrow> t)"

subsection \<open>The cart client\<close>

definition getCart_request :: "string option \<Rightarrow> request" where
  "getCart_request token =
     \<lparr> req_method = GET, req_url = ''/api/cart'',
       req_headers = [(''Authorization'', bearer token)], req_body = None \<rparr>"

definition getCart :: "string option \<Rightarrow> CartResponse network \<Rightarrow> CartItem list outcome \<times> effect list" where
  "getCart token net =
     (if no_token token then (Resolves [], [])
      else
        let req = getCart_request token
        in case net req of
             None \<Rightarrow> (Resolves [], [Fetch req])
           | Some r \<Rightarrow>
               (case json_body r of
                  None \<Rightarrow> (Resolves [], [Fetch req])
                | Some d \<Rightarrow>
                    if success d then
                      (case data d of
                         NoData \<Rightarrow> (Resolves [], [Fetch req])
                       | OneItem x \<Rightarrow> (Resolves [], [Fetch req])
                       | Items cartItems \<Rightarrow> (Resolves (map normalizeItem cartItems), [Fetch req]))
                    else (Resolves [], [Fetch req])))"

definition updateCartQuantity_request :: "string option \<Rightarrow> string \<Rightarrow> jsval \<Rightarrow> request" where
  "updateCartQuantity_request token itemId qty =
     \<lparr> req_method = PUT, req_url = ''/api/cart/'' @ itemId,
       req_headers = [(''Content-Type'', ''application/json''), (''Authorization'', bearer token)],
       req_body = Some (JObj [(''quantity'', JNum (Math_max (Fin 1) (safeNumber qty)))]) \<rparr>"

definition updateCartQuantity ::
    "string option \<Rightarrow> CartResponse network \<Rightarrow> string \<Rightarrow> jsval \<Rightarrow> bool outcome \<times> effect list" where
  "updateCartQuantity token net itemId qty =
     (if no_token token then (Resolves False, [])
      else
        let req = updateCartQuantity_request token itemId qty
        in case net req of
             None \<Rightarrow> (Resolves False, [Fetch req])
           | Some r \<Rightarrow>
               (case json_body r of
                  None \<Rightarrow> (Resolves False, [Fetch req])
                | Some d \<Rightarrow>
                    (Resolves (success d),
                     Fetch req # (if success d then [Dispatch ''cartUpdated''] else []))))"

definition removeFromCart_request :: "string option \<Rightarrow> string \<Rightarrow> request" where
  "removeFromCart_request token itemId =
     \<lparr> req_method = DELETE, req_url = ''/api/cart/'' @ itemId,
       req_headers = [(''Authorization'', bearer token)], req_body = None \<rparr>"

definition removeFromCart ::
    "string option \<Rightarrow> CartResponse network \<Rightarrow> string \<Rightarrow> bool outcome \<times> effect list" where
  "removeFromCart token net itemId =
     (if no_token token then (Resolves False, [])
      else
        let req = removeFromCart_request token itemId
        in case net req of
             None \<Rightarrow> (Resolves False, [Fetch req])
           | Some r \<Rightarrow>
               (case json_body r of
                  None \<Rightarrow> (Resolves False, [Fetch req])
                | Some d \<Rightarrow>
                    (Resolves (success d),
                     Fetch req # (if success d then [Dispatch ''cartUpdated''] else []))))"

definition clearCart_request :: "string option \<Rightarrow> request" where
  "clearCart_request token =
     \<lparr> req_method = DELETE, req_url = ''/api/cart/clear'',
       req_headers = [(''Authorization'', bearer token),
                      (''Content-Type'', ''application/json''),
                      (''Accept'', ''application/json'')],
       req_body = None \<rparr>"

definition clearCart :: "string option \<Rightarrow> CartResponse network \<Rightarrow> bool outcome \<times> effect list" where
  "clearCart token net =
     (if no_token token then (Resolves False, [])
      else
        let req = clearCart_request token
        in case net req of
             None \<Rightarrow> (Resolves False, [Fetch req])
           | Some r \<Rightarrow>
               if \<not> ok r then (Resolves False, [Fetch req])
               else
                 (case json_body r of
                    None \<Rightarrow> (Resolves False, [Fetch req])
                  | Some d \<Rightarrow>
                      if success d
                      then (Resolves True, [Fetch req, Dispatch ''cartUpdated'', Dispatch ''cartCleared''])
                      else (Resolves False, [Fetch req])))"

subsection \<open>The retry wrapper\<close>

text \<open>
  \<^verbatim>\<open>clearCartAfterCheckout\<close> calls \<^verbatim>\<open>clearCart\<close> once in each turn of its loop.
  The behaviour of the cart-clear operation is the outcome of each of its calls, by the
  number of the call, from 0. The loop keeps the source's two variables; its result is
  the value returned from inside the loop, or the error thrown after it.
\<close>

definition maxAttempts :: nat where
  "maxAttempts = 3"

function retry_loop ::
    "(nat \<Rightarrow> bool outcome) \<Rightarrow> nat \<Rightarrow> error option \<Rightarrow> bool outcome \<times> effect list" where
  "retry_loop clear attempts lastError =
     (if attempts < maxAttempts then
        (case clear attempts of
           Resolves True \<Rightarrow> (Resolves True, [Invoke ''clearCart''])
         | Resolves False \<Rightarrow>
             (let (r, effs) = retry_loop clear (attempts + 1) lastError
              in (r, Invoke ''clearCart'' #
                     (if attempts + 1 < maxAttempts then [Sleep 1000] else []) @ effs))
         | Rejects e \<Rightarrow>
             (let (r, effs) = retry_loop clear (attempts + 1) (Some e)
              in (r, Invoke ''clearCart'' #
                     (if attempts + 1 < maxAttempts then [Sleep 1000] else []) @ effs)))
      else
        (Rejects (case lastError of
                    Some e \<Rightarrow> e
                  | None \<Rightarrow> Error ''Failed to clear cart after multiple attempts''), []))"
  by pat_completeness auto
termination
  by (relation "measure (\<lambda>(clear, attempts, lastError). maxAttempts - attempts)") auto

definition clearCartAfterCheckout :: "(nat \<Rightarrow> bool outcome) \<Rightarrow> bool outcome \<times> effect list" where
  "clearCartAfterCheckout clear =
     (case retry_loop clear 0 None of
        (Resolves b, effs) \<Rightarrow> (Resolves b, effs)
      | (Rejects e, effs) \<Rightarrow> (Resolves False, effs))"

definition attempts_made :: "effect list \<Rightarrow> nat" where
  "attempts_made effs = length (filter (\<lambda>e. e = Invoke ''clearCart'') effs)"

section \<open>The order proxy endpoint\<close>

text \<open>
  \<^verbatim>\<open>NextResponse.json(body, {status})\<close> builds a response with a body, which the
  Fetch standard refuses with a RangeError for a status outside 200 to 599 and with a
  TypeError for a status that allows no body.
\<close>

definition null_body_status :: "nat \<Rightarrow> bool" where
  "null_body_status st = (st = 101 \<or> st = 103 \<or> st = 204 \<or> st = 205 \<or> st = 304)"

definition NextResponse_json :: "jsval \<Rightarrow> nat \<Rightarrow> error + (nat \<times> jsval)" where
  "NextResponse_json body st =
     (if st < 200 \<or> 599 < st then Inl RangeError
      else if null_body_status st then Inl TypeError
      else Inr (st, body))"

definition authentication_required :: "nat \<times> jsval" where
  "authentication_required =
     (401, JObj [(''success'', JBool False), (''message'', JStr ''Authentication required'')])"

definition internal_server_error :: "nat \<times> jsval" where
  "internal_server_error =
     (500, JObj [(''success'', JBool False), (''message'', JStr ''Internal server error'')])"

text \<open>
  The backend's base address is read from the environment; an unset variable is
  \<^verbatim>\<open>undefined\<close> and prints as such in the template.
\<close>

definition orders_url :: "string option \<Rightarrow> string" where
  "orders_url base = (case base of None \<Rightarrow> ''undefined'' | Some b \<Rightarrow> b) @ ''/orders''"

definition orders_GET_request :: "string option \<Rightarrow> string \<Rightarrow> request" where
  "orders_GET_request base authHeader =
     \<lparr> req_method = GET, req_url = orders_url base,
       req_headers = [(''Authorization'', authHeader),
                      (''Accept'', ''application/json''),
                      (''Content-Type'', ''application/json'')],
       req_body = None \<rparr>"

text \<open>
  The handler \<^verbatim>\<open>GET\<close> of the route, from the value of
  \<^verbatim>\<open>request.headers.get("authorization")\<close> (\<open>None\<close> for \<^verbatim>\<open>null\<close>, the header
  being absent) to the status and body of its reply.
\<close>

definition orders_GET ::
    "string option \<Rightarrow> string option \<Rightarrow> jsval network \<Rightarrow> (nat \<times> jsval) \<times> effect list" where
  "orders_GET base authHeader net =
     (case authHeader of
        None \<Rightarrow> (authentication_required, [])
      | Some h \<Rightarrow>
          if h = [] then (authentication_required, [])
          else
            let req = orders_GET_request base h
            in case net req of
                 None \<Rightarrow> (internal_server_error, [Fetch req])
               | Some r \<Rightarrow>
                   (case json_body r of
                      None \<Rightarrow> (internal_server_error, [Fetch req])
                    | Some d \<Rightarrow>
                        (case NextResponse_json d (status r) of
                           Inl e \<Rightarrow> (internal_server_error, [Fetch req])
                         | Inr reply \<Rightarrow> (reply, [Fetch req]))))"

section \<open>The product client\<close>

text \<open>
  Reading a member \<^verbatim>\<open>v.k\<close> of a value, for the names \<^verbatim>\<open>success\<close>,
  \<^verbatim>\<open>data\<close>, \<^verbatim>\<open>message\<close>, \<^verbatim>\<open>id\<close> and \<^verbatim>\<open>order_number\<close>, which no
  prototype defines: a TypeError on \<^verbatim>\<open>null\<close> and \<^verbatim>\<open>undefined\<close>, the member
  of a plain object, \<^verbatim>\<open>undefined\<close> otherwise.
\<close>

fun member :: "jsval \<Rightarrow> string \<Rightarrow> error + jsval" where
  "member JUndefined k = Inl TypeError"
| "member JNull k = Inl TypeError"
| "member (JObj kvs) k = Inr (case map_of kvs k of None \<Rightarrow> JUndefined | Some v \<Rightarrow> v)"
| "member v k = Inr JUndefined"

fun isArray :: "jsval \<Rightarrow> bool" where
  "isArray (JArr _) = True"
| "isArray _ = False"

text \<open>
  \<^verbatim>\<open>getProducts\<close> from the response of its request on; the address of the request,
  built from the filters, decides only which response the backend gives.
\<close>

definition getProducts :: "jsval response option \<Rightarrow> jsval outcome" where
  "getProducts fetched =
     (case fetched of
        None \<Rightarrow> Rejects NetworkError
      | Some r \<Rightarrow>
          if \<not> ok r then Rejects (HttpError (status r))
          else
            (case json_body r of
               None \<Rightarrow> Rejects SyntaxError
             | Some d \<Rightarrow>
                 if isArray d then Resolves d
                 else
                   (case member d ''success'' of
                      Inl e \<Rightarrow> Rejects e
                    | Inr s \<Rightarrow>
                        (case member d ''data'' of
                           Inl e \<Rightarrow> Rejects e
                         | Inr dd \<Rightarrow>
                             if truthy (js_and s dd)
                             then Resolves (if isArray dd then dd else JArr [dd])
                             else Resolves (js_or dd (js_or d (JArr [])))))))"

subsection \<open>Category names\<close>

text \<open>
  The two tables are object literals, so reading a member by a key looks the key up
  among the literal's own members and then in \<^verbatim>\<open>Object.prototype\<close>. A member found
  there is a function or, for \<^verbatim>\<open>__proto__\<close>, the prototype itself: a value that is
  truthy and no string. \<open>Inherited k\<close> is the member \<open>k\<close> of \<^verbatim>\<open>Object.prototype\<close>.
\<close>

datatype table_value = Str string | Inherited string

definition Object_prototype_names :: "string list" where
  "Object_prototype_names =
     [''constructor'', ''toString'', ''toLocaleString'', ''valueOf'', ''hasOwnProperty'',
      ''isPrototypeOf'', ''propertyIsEnumerable'', ''__proto__'', ''__defineGetter__'',
      ''__defineSetter__'', ''__lookupGetter__'', ''__lookupSetter__'']"

definition table_get :: "(string \<times> string) list \<Rightarrow> string \<Rightarrow> table_value option" where
  "table_get table k =
     (case map_of table k of
        Some v \<Rightarrow> Some (Str v)
      | None \<Rightarrow> if k \<in> set Object_prototype_names then Some (Inherited k) else None)"

text \<open>\<^verbatim>\<open>table[k] || k\<close>.\<close>

definition table_or :: "(string \<times> string) list \<Rightarrow> string \<Rightarrow> table_value" where
  "table_or table k =
     (case table_get table k of
        None \<Rightarrow> Str k
      | Some (Str v) \<Rightarrow> if v \<noteq> [] then Str v else Str k
      | Some (Inherited n) \<Rightarrow> Inherited n)"

definition categoryMap :: "(string \<times> string) list" where
  "categoryMap =
     [(''E-Bike'', ''Electric Bicycles''),
      (''E-Trike'', ''Electric Tricycles''),
      (''E-Motorcycle'', ''Electric Motorcycles''),
      (''E-Dump'', ''Electric Dump Trucks''),
      (''E-Scooter'', ''Electric Scooters'')]"

definition displayMap :: "(string \<times> string) list" where
  "displayMap =
     [(''Electric Bicycles'', ''E-Bike''),
      (''Electric Tricycles'', ''E-Trike''),
      (''Electric Motorcycles'', ''E-Motorcycle''),
      (''Electric Dump Trucks'', ''E-Dump''),
      (''Electric Scooters'', ''E-Scooter'')]"

definition getProductDisplayName :: "string \<Rightarrow> table_value" where
  "getProductDisplayName category = table_or categoryMap category"

definition getCategoryFromDisplayName :: "string \<Rightarrow> table_value" where
  "getCategoryFromDisplayName displayName = table_or displayMap displayName"

section \<open>The checkout page\<close>

record ShippingInfo =
  firstName :: string
  lastName :: string
  email :: string
  phone :: string
  address :: string
  city :: string
  province :: string
  zipCode :: string

definition requiredFields :: "(string \<times> (ShippingInfo \<Rightarrow> string)) list" where
  "requiredFields =
     [(''firstName'', firstName), (''lastName'', lastName), (''email'', email),
      (''phone'', phone), (''address'', address), (''city'', city),
      (''province'', province), (''zipCode'', zipCode)]"

text \<open>
  \<^verbatim>\<open>field.replace(/([A-Z])/g, " $1").toLowerCase()\<close>, on the names of the fields,
  which are ASCII.
\<close>

definition is_upper :: "char \<Rightarrow> bool" where
  "is_upper c = (65 \<le> (of_char c :: nat) \<and> (of_char c :: nat) \<le> 90)"

definition to_lower :: "char \<Rightarrow> char" where
  "to_lower c = (if is_upper c then char_of (of_char c + (32 :: nat)) else c)"

definition field_label :: "string \<Rightarrow> string" where
  "field_label field = map to_lower (concat (map (\<lambda>c. if is_upper c then [CHR '' '', c] else [c]) field))"

text \<open>
  \<^verbatim>\<open>/^[^\s@]+@[^\s@]+\.[^\s@]+$/\<close>: since no part may hold an at sign, the part
  before the first at sign is the first part; what follows it must hold a dot that is
  neither its first nor its last character.
\<close>

definition email_char :: "char \<Rightarrow> bool" where
  "email_char c = (\<not> is_ws c \<and> c \<noteq> CHR ''@'')"

definition emailRegex_test :: "string \<Rightarrow> bool" where
  "emailRegex_test s =
     (let a = takeWhile (\<lambda>c. c \<noteq> CHR ''@'') s;
          r = dropWhile (\<lambda>c. c \<noteq> CHR ''@'') s
      in a \<noteq> [] \<and> list_all email_char a \<and> r \<noteq> [] \<and>
         list_all email_char (tl r) \<and> CHR ''.'' \<in> set (butlast (tl (tl r))))"

text \<open>\<^verbatim>\<open>/^[0-9]{11}$/\<close>.\<close>

definition phoneRegex_test :: "string \<Rightarrow> bool" where
  "phoneRegex_test s = (length s = 11 \<and> list_all is_digit s)"

definition startsWith :: "string \<Rightarrow> string \<Rightarrow> bool" where
  "startsWith s p = (take (length p) s = p)"

definition validateForm :: "ShippingInfo \<Rightarrow> bool \<times> effect list" where
  "validateForm shippingInfo =
     (case find (\<lambda>(field, get). trim (get shippingInfo) = []) requiredFields of
        Some (field, get) \<Rightarrow>
          (False, [ToastError ''Validation Error'' (''Please fill in '' @ field_label field)])
      | None \<Rightarrow>
          if \<not> emailRegex_test (email shippingInfo) then
            (False, [ToastError ''Validation Error'' ''Please enter a valid email address''])
          else if \<not> phoneRegex_test (phone shippingInfo) then
            (False, [ToastError ''Validation Error''
                       ''Please enter a valid 11-digit Philippine phone number''])
          else if \<not> startsWith (phone shippingInfo) ''09'' then
            (False, [ToastError ''Validation Error''
                       ''Phone number should start with 09 (e.g., 09123456789)''])
          else (True, []))"

text \<open>
  \<^verbatim>\<open>handleSubmit\<close> closes over the state of the page: the shipping form, the cart,
  the payment method and the three amounts computed when the page renders. The session
  token comes from the browser's storage, the reply to the order from the network, and
  the cart-clear operation behaves as in the retry wrapper.
\<close>

record page =
  shippingInfo :: ShippingInfo
  cart :: "CartItem list"
  paymentMethod :: string
  page_subtotal :: jsnum
  page_shipping :: jsnum
  page_total :: jsnum

definition orderData :: "page \<Rightarrow> jsval" where
  "orderData pg =
     JObj [(''items'',
            JArr (map (\<lambda>item. JObj [(''product_id'', product_id item),
                                     (''quantity'', quantity item),
                                     (''price'', price item),
                                     (''color'', color item)]) (cart pg))),
           (''shipping_info'',
            JObj (map (\<lambda>(field, get). (field, JStr (get (shippingInfo pg)))) requiredFields)),
           (''payment_method'', JStr (paymentMethod pg)),
           (''subtotal'', JNum (page_subtotal pg)),
           (''shipping_fee'', JNum (page_shipping pg)),
           (''total'', JNum (page_total pg)),
           (''is_guest'', JBool False)]"

definition order_request :: "page \<Rightarrow> string option \<Rightarrow> request" where
  "order_request pg token =
     \<lparr> req_method = POST, req_url = ''/api/orders'',
       req_headers = (''Content-Type'', ''application/json'') #
                     (if no_token token then [] else [(''Authorization'', bearer token)]),
       req_body = Some (orderData pg) \<rparr>"

text \<open>The error thrown for a reply without success: \<^verbatim>\<open>result.message || "Order failed"\<close>.\<close>

definition order_error :: "jsval \<Rightarrow> error" where
  "order_error msg =
     (if \<not> truthy msg then Error ''Order failed''
      else case msg of JStr m \<Rightarrow> Error m | _ \<Rightarrow> ErrorOf msg)"

text \<open>
  What follows a reply with success: the result of the \<^verbatim>\<open>try\<close> block from there
  on, the effects first and then the error that ended them, if any.
\<close>

definition after_success :: "jsval \<Rightarrow> (nat \<Rightarrow> bool outcome) \<Rightarrow> effect list \<times> error option" where
  "after_success result clear =
     (let (cleared, effs) = clearCartAfterCheckout clear;
          order_number = (case member result ''data'' of
                            Inl e \<Rightarrow> Inl e | Inr d \<Rightarrow> member d ''order_number'');
          order_id = (case member result ''data'' of
                        Inl e \<Rightarrow> Inl e | Inr d \<Rightarrow> member d ''id'')
      in if cleared = Resolves True then
           (case order_number of
              Inl e \<Rightarrow>
                (effs @ [Invoke ''refreshCart'', Timer 1000 ''refreshNotifications'',
                         Dispatch ''orderPlaced''], Some e)
            | Inr n \<Rightarrow>
                (case order_id of
                   Inl e \<Rightarrow>
                     (effs @ [Invoke ''refreshCart'', Timer 1000 ''refreshNotifications'',
                              Dispatch ''orderPlaced'', ToastOrderPlaced n], Some e)
                 | Inr i \<Rightarrow>
                     (effs @ [Invoke ''refreshCart'', Timer 1000 ''refreshNotifications'',
                              Dispatch ''orderPlaced'', ToastOrderPlaced n,
                              PushOrderSuccess i n], None)))
         else
           (case order_id of
              Inl e \<Rightarrow>
                (effs @ [ToastWarning ''Order Placed''
                           ''Order successful but cart may need manual refresh''], Some e)
            | Inr i \<Rightarrow>
                (case order_number of
                   Inl e \<Rightarrow>
                     (effs @ [ToastWarning ''Order Placed''
                                ''Order successful but cart may need manual refresh''], Some e)
                 | Inr n \<Rightarrow>
                     (effs @ [ToastWarning ''Order Placed''
                                ''Order successful but cart may need manual refresh'',
                              PushOrderSuccess i n], None))))"

definition submit_order ::
    "page \<Rightarrow> string option \<Rightarrow> jsval network \<Rightarrow> (nat \<Rightarrow> bool outcome) \<Rightarrow> effect list \<times> error option" where
  "submit_order pg token net clear =
     (let req = order_request pg token
      in case net req of
           None \<Rightarrow> ([Fetch req], Some NetworkError)
         | Some r \<Rightarrow>
             (case json_body r of
                None \<Rightarrow> ([Fetch req], Some SyntaxError)
              | Some result \<Rightarrow>
                  (case member result ''success'' of
                     Inl e \<Rightarrow> ([Fetch req], Some e)
                   | Inr s \<Rightarrow>
                       if truthy s then
                         (let (effs, err) = after_success result clear
                          in (Fetch req # effs, err))
                       else
                         (case member result ''message'' of
                            Inl e \<Rightarrow> ([Fetch req], Some e)
                          | Inr msg \<Rightarrow> ([Fetch req], Some (order_error msg))))))"

definition handleSubmit ::
    "page \<Rightarrow> string option \<Rightarrow> jsval network \<Rightarrow> (nat \<Rightarrow> bool outcome) \<Rightarrow> effect list" where
  "handleSubmit pg token net clear =
     (let (valid, toasts) = validateForm (shippingInfo pg)
      in if \<not> valid then Invoke ''preventDefault'' # toasts
         else
           (let (effs, err) = submit_order pg token net clear
            in [Invoke ''preventDefault'', SetIsProcessing True] @ effs @
               (case err of None \<Rightarrow> [] | Some e \<Rightarrow> [ToastOrderFailed e]) @
               [SetIsProcessing False]))"

definition sends_request :: "effect list \<Rightarrow> bool" where
  "sends_request effs = list_ex (\<lambda>e. case e of Fetch r \<Rightarrow> True | _ \<Rightarrow> False) effs"

section \<open>The specification's words\<close>



text \<open>The fallback as the specification words it: \<^verbatim>\<open>data.data ?? data ?? []\<close>.\<close>

definition spec_fallback :: "jsval \<Rightarrow> jsval \<Rightarrow> jsval" where
  "spec_fallback dd d = nullish_or dd (nullish_or d (JArr []))"

section \<open>Inputs of the examples\<close>

text \<open>The cart of the specification's example: one line, price 1000, quantity 2, total 0.\<close>

definition example_cart :: "CartItem list" where
  "example_cart = [item_of (JNum (Fin 1000)) (JNum (Fin 2)) (JNum (Fin 0))]"



text \<open>The cart-clear operation that fails twice and then succeeds, and the one that always fails.\<close>

definition third_time_lucky :: "nat \<Rightarrow> bool outcome" where
  "third_time_lucky n = (if n = 2 then Resolves True else if n = 1 then Rejects NetworkError else Resolves False)"

definition always_failing :: "nat \<Rightarrow> bool outcome" where
  "always_failing n = Resolves False"

text \<open>
  A backend that answers every cart request with status 200 and the given items, and a
  network on which every request fails.
\<close>

definition cart_backend :: "CartItem list \<Rightarrow> CartResponse network" where
  "cart_backend items req =
     Some \<lparr> status = 200, text_body = [],
            json_body = Some \<lparr> success = True, message = None, data = Items items,
                               deleted_items = JUndefined \<rparr> \<rparr>"

definition no_network :: "'b network" where
  "no_network req = None"

text \<open>
  Two items as a backend may send them: price \<^verbatim>\<open>"12.5"\<close>, quantity 0 and total
  \<^verbatim>\<open>null\<close>; and price \<^verbatim>\<open>"Infinity"\<close>, quantity 1 and no total.
\<close>

definition stringy_item :: CartItem where
  "stringy_item = item_of (JStr ''12.5'') (JNum (Fin 0)) JNull"


text \<open>
  A backend of orders that answers with status 200 and an empty list of orders, and a
  gateway that answers every request with status 502 and a body that is no JSON.
\<close>

definition orders_backend :: "jsval network" where
  "orders_backend req =
     Some \<lparr> status = 200, text_body = [],
            json_body = Some (JObj [(''success'', JBool True), (''data'', JArr [])]) \<rparr>"

definition bad_gateway :: "jsval network" where
  "bad_gateway req = Some \<lparr> status = 502, text_body = ''Bad Gateway'', json_body = None \<rparr>"

text \<open>A reply of the product backend without success whose data is the number 0.\<close>

definition envelope_zero :: jsval where
  "envelope_zero = JObj [(''success'', JBool False), (''data'', JNum (Fin 0))]"

definition fetched :: "jsval \<Rightarrow> jsval response option" where
  "fetched d = Some \<lparr> status = 200, text_body = [], json_body = Some d \<rparr>"

text \<open>A shipping form that is filled in, and a page that holds it.\<close>

definition filled_form :: ShippingInfo where
  "filled_form =
     \<lparr> firstName = ''Juan'', lastName = ''Cruz'', email = ''juan@example.ph'',
       phone = ''09123456789'', address = ''1 Rizal St'', city = ''Manila'',
       province = ''Metro Manila'', zipCode = ''1000'' \<rparr>"

definition page_of :: "ShippingInfo \<Rightarrow> page" where
  "page_of info =
     \<lparr> shippingInfo = info, cart = example_cart, paymentMethod = ''cod'',
       page_subtotal = Fin 2000, page_shipping = Fin 500, page_total = Fin 2500 \<rparr>"

section \<open>Properties of the numeric normalizer\<close>







section \<open>Properties of the summary calculator\<close>














section \<open>Properties of the retry wrapper\<close>

declare retry_loop.simps [simp del]

lemma retry_loop_done:
  "retry_loop clear 3 le =
     (Rejects (case le of Some e \<Rightarrow> e
               | None \<Rightarrow> Error ''Failed to clear cart after multiple attempts''), [])"
  by (subst retry_loop.simps) (simp add: maxAttempts_def)

lemma retry_loop_succ:
  "a < 3 \<Longrightarrow> clear a = Resolves True \<Longrightarrow>
   retry_loop clear a le = (Resolves True, [Invoke ''clearCart''])"
  by (subst retry_loop.simps) (simp add: maxAttempts_def)

lemma retry_loop_fail:
  assumes "a < 3" "clear a \<noteq> Resolves True"
  shows "\<exists>le'. retry_loop clear a le =
           (fst (retry_loop clear (Suc a) le'),
            Invoke ''clearCart'' # (if Suc a < 3 then [Sleep 1000] else []) @
            snd (retry_loop clear (Suc a) le'))"
proof (cases "clear a")
  case (Resolves b)
  with assms have "\<not> b" by simp
  with Resolves assms(1) have "retry_loop clear a le =
      (fst (retry_loop clear (Suc a) le),
       Invoke ''clearCart'' # (if Suc a < 3 then [Sleep 1000] else []) @
       snd (retry_loop clear (Suc a) le))"
    by (subst retry_loop.simps) (simp add: maxAttempts_def split: prod.splits)
  then show ?thesis by blast
next
  case (Rejects e)
  with assms(1) have "retry_loop clear a le =
      (fst (retry_loop clear (Suc a) (Some e)),
       Invoke ''clearCart'' # (if Suc a < 3 then [Sleep 1000] else []) @
       snd (retry_loop clear (Suc a) (Some e)))"
    by (subst retry_loop.simps) (simp add: maxAttempts_def split: prod.splits)
  then show ?thesis by blast
qed

lemma attempts_made_simps:
  "attempts_made [] = 0"
  "attempts_made (Invoke ''clearCart'' # es) = Suc (attempts_made es)"
  "attempts_made (Sleep n # es) = attempts_made es"
  "attempts_made (xs @ ys) = attempts_made xs + attempts_made ys"
  by (simp_all add: attempts_made_def)

text \<open>
  The loop entered with \<open>a\<close> attempts behind it: it returns true at the first call from
  \<open>a\<close> on that succeeds, and throws when none of the calls up to the third does.
\<close>

lemma retry_from:
  "a \<le> 3 \<Longrightarrow>
   (case fst (retry_loop clear a le) of
      Resolves b \<Rightarrow>
        b \<and> (\<exists>k. a \<le> k \<and> k < 3 \<and> clear k = Resolves True \<and>
               (\<forall>j. a \<le> j \<and> j < k \<longrightarrow> clear j \<noteq> Resolves True) \<and>
               attempts_made (snd (retry_loop clear a le)) = Suc k - a)
    | Rejects e \<Rightarrow>
        (\<forall>j. a \<le> j \<and> j < 3 \<longrightarrow> clear j \<noteq> Resolves True) \<and>
        attempts_made (snd (retry_loop clear a le)) = 3 - a)"
proof (induction "3 - a" arbitrary: a le)
  case 0
  then have "a = 3" by simp
  then show ?case by (auto simp add: retry_loop_done attempts_made_simps)
next
  case (Suc n)
  then have a3: "a < 3" by simp
  show ?case
  proof (cases "clear a = Resolves True")
    case True
    then show ?thesis using a3 by (auto simp add: retry_loop_succ attempts_made_simps)
  next
    case False
    from retry_loop_fail [of a clear le, OF a3 False] obtain le' where
      eq: "retry_loop clear a le =
             (fst (retry_loop clear (Suc a) le'),
              Invoke ''clearCart'' # (if Suc a < 3 then [Sleep 1000] else []) @
              snd (retry_loop clear (Suc a) le'))"
      by blast
    have ih: "case fst (retry_loop clear (Suc a) le') of
        Resolves b \<Rightarrow>
          b \<and> (\<exists>k. Suc a \<le> k \<and> k < 3 \<and> clear k = Resolves True \<and>
                 (\<forall>j. Suc a \<le> j \<and> j < k \<longrightarrow> clear j \<noteq> Resolves True) \<and>
                 attempts_made (snd (retry_loop clear (Suc a) le')) = Suc k - Suc a)
      | Rejects e \<Rightarrow>
          (\<forall>j. Suc a \<le> j \<and> j < 3 \<longrightarrow> clear j \<noteq> Resolves True) \<and>
          attempts_made (snd (retry_loop clear (Suc a) le')) = 3 - Suc a"
      using Suc.hyps(1) [of "Suc a" le'] Suc.hyps(2) a3 by simp
    show ?thesis
    proof (cases "fst (retry_loop clear (Suc a) le')")
      case (Resolves b)
      with ih obtain k where k: "b" "Suc a \<le> k" "k < 3" "clear k = Resolves True"
        "\<forall>j. Suc a \<le> j \<and> j < k \<longrightarrow> clear j \<noteq> Resolves True"
        "attempts_made (snd (retry_loop clear (Suc a) le')) = Suc k - Suc a"
        by auto
      have "\<forall>j. a \<le> j \<and> j < k \<longrightarrow> clear j \<noteq> Resolves True"
        using k(5) False by (metis le_antisym not_less_eq_eq)
      then show ?thesis using k Resolves eq a3
        by (auto simp add: attempts_made_simps intro!: exI [of _ k])
    next
      case (Rejects e)
      with ih have r: "\<forall>j. Suc a \<le> j \<and> j < 3 \<longrightarrow> clear j \<noteq> Resolves True"
        "attempts_made (snd (retry_loop clear (Suc a) le')) = 3 - Suc a"
        by auto
      have "\<forall>j. a \<le> j \<and> j < 3 \<longrightarrow> clear j \<noteq> Resolves True"
        using r(1) False by (metis le_antisym not_less_eq_eq)
      then show ?thesis using r Rejects eq a3
        by (auto simp add: attempts_made_simps)
    qed
  qed
qed

text \<open>
  C3. Whatever the outcomes of the calls of the cart-clear operation are,
  \<^verbatim>\<open>clearCartAfterCheckout\<close> resolves to a boolean and never rejects; it calls the
  operation at most 3 times; if call \<open>k\<close> (counted from 0, below 3) is the first that
  resolves true, it resolves true after exactly \<open>k + 1\<close> calls; and if none of the first
  three calls resolves true, it resolves false after exactly 3 calls.
\<close>

theorem clearCartAfterCheckout_retries:
  "(\<exists>b. fst (clearCartAfterCheckout clear) = Resolves b) \<and>
   attempts_made (snd (clearCartAfterCheckout clear)) \<le> 3 \<and>
   (\<forall>k. k < 3 \<and> clear k = Resolves True \<and> (\<forall>j. j < k \<longrightarrow> clear j \<noteq> Resolves True) \<longrightarrow>
      fst (clearCartAfterCheckout clear) = Resolves True \<and>
      attempts_made (snd (clearCartAfterCheckout clear)) = k + 1) \<and>
   ((\<forall>j. j < 3 \<longrightarrow> clear j \<noteq> Resolves True) \<longrightarrow>
      fst (clearCartAfterCheckout clear) = Resolves False \<and>
      attempts_made (snd (clearCartAfterCheckout clear)) = 3)"
proof -
  obtain r effs where loop: "retry_loop clear 0 None = (r, effs)"
    by (cases "retry_loop clear 0 None")
  have facts: "case r of
      Resolves b \<Rightarrow>
        b \<and> (\<exists>k. k < 3 \<and> clear k = Resolves True \<and>
               (\<forall>j. j < k \<longrightarrow> clear j \<noteq> Resolves True) \<and> attempts_made effs = Suc k)
    | Rejects e \<Rightarrow> (\<forall>j. j < 3 \<longrightarrow> clear j \<noteq> Resolves True) \<and> attempts_made effs = 3"
    using retry_from [of 0 clear None] loop by (cases r) simp_all
  show ?thesis
  proof (cases r)
    case (Resolves b)
    with facts obtain k where k: "b" "k < 3" "clear k = Resolves True"
      "\<forall>j. j < k \<longrightarrow> clear j \<noteq> Resolves True" "attempts_made effs = Suc k"
      by auto
    have res: "clearCartAfterCheckout clear = (Resolves True, effs)"
      using loop Resolves k(1) by (simp add: clearCartAfterCheckout_def)
    have uniq: "k' = k"
      if "k' < 3" "clear k' = Resolves True" "\<forall>j. j < k' \<longrightarrow> clear j \<noteq> Resolves True" for k'
      using that k by (meson linorder_neqE_nat)
    have c1: "\<exists>b. fst (clearCartAfterCheckout clear) = Resolves b"
      unfolding res by auto
    have c2: "attempts_made (snd (clearCartAfterCheckout clear)) \<le> 3"
      using k(2) k(5) by (simp add: res)
    have c3: "\<forall>k'. k' < 3 \<and> clear k' = Resolves True \<and>
          (\<forall>j. j < k' \<longrightarrow> clear j \<noteq> Resolves True) \<longrightarrow>
        fst (clearCartAfterCheckout clear) = Resolves True \<and>
        attempts_made (snd (clearCartAfterCheckout clear)) = k' + 1"
    proof (intro allI impI)
      fix k'
      assume "k' < 3 \<and> clear k' = Resolves True \<and> (\<forall>j. j < k' \<longrightarrow> clear j \<noteq> Resolves True)"
      then have "k' = k" using uniq by blast
      then show "fst (clearCartAfterCheckout clear) = Resolves True \<and>
          attempts_made (snd (clearCartAfterCheckout clear)) = k' + 1"
        using k(5) by (simp add: res)
    qed
    have c4: "(\<forall>j. j < 3 \<longrightarrow> clear j \<noteq> Resolves True) \<longrightarrow>
        fst (clearCartAfterCheckout clear) = Resolves False \<and>
        attempts_made (snd (clearCartAfterCheckout clear)) = 3"
      using k(2) k(3) by blast
    show ?thesis
      using c1 c2 c3 c4 by blast
  next
    case (Rejects e)
    with facts have f: "\<forall>j. j < 3 \<longrightarrow> clear j \<noteq> Resolves True" "attempts_made effs = 3"
      by auto
    have res: "clearCartAfterCheckout clear = (Resolves False, effs)"
      using loop Rejects by (simp add: clearCartAfterCheckout_def)
    have c1: "\<exists>b. fst (clearCartAfterCheckout clear) = Resolves b"
      unfolding res by auto
    have c2: "attempts_made (snd (clearCartAfterCheckout clear)) \<le> 3"
      using f(2) by (simp add: res)
    have c3: "\<forall>k'. k' < 3 \<and> clear k' = Resolves True \<and>
          (\<forall>j. j < k' \<longrightarrow> clear j \<noteq> Resolves True) \<longrightarrow>
        fst (clearCartAfterCheckout clear) = Resolves True \<and>
        attempts_made (snd (clearCartAfterCheckout clear)) = k' + 1"
      using f(1) by blast
    have c4: "(\<forall>j. j < 3 \<longrightarrow> clear j \<noteq> Resolves True) \<longrightarrow>
        fst (clearCartAfterCheckout clear) = Resolves False \<and>
        attempts_made (snd (clearCartAfterCheckout clear)) = 3"
      using f(2) by (simp add: res)
    show ?thesis
      using c1 c2 c3 c4 by blast
  qed
qed

text \<open>
  An operation that fails twice (once resolving false, once rejecting) and then succeeds
  makes the wrapper resolve true after 3 calls; one that always fails makes it resolve
  false after 3 calls.
\<close>

theorem clearCartAfterCheckout_retries_witness:
  "third_time_lucky 2 = Resolves True \<and>
   third_time_lucky 0 \<noteq> Resolves True \<and> third_time_lucky 1 \<noteq> Resolves True \<and>
   fst (clearCartAfterCheckout third_time_lucky) = Resolves True \<and>
   attempts_made (snd (clearCartAfterCheckout third_time_lucky)) = 3 \<and>
   always_failing 0 \<noteq> Resolves True \<and> always_failing 1 \<noteq> Resolves True \<and>
   always_failing 2 \<noteq> Resolves True \<and>
   fst (clearCartAfterCheckout always_failing) = Resolves False \<and>
   attempts_made (snd (clearCartAfterCheckout always_failing)) = 3"
proof -
  have lt2: "j < 2 \<longleftrightarrow> j = 0 \<or> j = 1" for j :: nat by auto
  have "fst (clearCartAfterCheckout third_time_lucky) = Resolves True \<and>
        attempts_made (snd (clearCartAfterCheckout third_time_lucky)) = 2 + 1"
    using clearCartAfterCheckout_retries [of third_time_lucky]
    by (auto simp: third_time_lucky_def lt2 dest!: spec [of _ 2])
  moreover have "fst (clearCartAfterCheckout always_failing) = Resolves False \<and>
        attempts_made (snd (clearCartAfterCheckout always_failing)) = 3"
    using clearCartAfterCheckout_retries [of always_failing]
    by (simp add: always_failing_def)
  ultimately show ?thesis
    by (simp add: third_time_lucky_def always_failing_def)
qed

section \<open>Properties of the cart client\<close>

lemmas client_defs = getCart_def updateCartQuantity_def removeFromCart_def clearCart_def

text \<open>
  C5. While no auth token is present, \<^verbatim>\<open>getCart\<close> resolves to the empty list and
  \<^verbatim>\<open>updateCartQuantity\<close>, \<^verbatim>\<open>removeFromCart\<close> and \<^verbatim>\<open>clearCart\<close> each resolve
  to false; none of them rejects, and none sends a request or has any other effect.
\<close>

theorem no_token_short_circuit:
  "no_token token \<Longrightarrow>
   getCart token net = (Resolves [], []) \<and>
   updateCartQuantity token net itemId qty = (Resolves False, []) \<and>
   removeFromCart token net itemId = (Resolves False, []) \<and>
   clearCart token net = (Resolves False, [])"
  by (simp add: client_defs)

text \<open>With the token \<^verbatim>\<open>null\<close>, in front of a backend that would answer.\<close>

theorem no_token_short_circuit_witness:
  "no_token None \<and>
   getCart None (cart_backend [stringy_item]) = (Resolves [], []) \<and>
   updateCartQuantity None (cart_backend [stringy_item]) ''7'' (JNum (Fin 2)) =
     (Resolves False, []) \<and>
   removeFromCart None (cart_backend [stringy_item]) ''7'' = (Resolves False, []) \<and>
   clearCart None (cart_backend [stringy_item]) = (Resolves False, [])"
  using no_token_short_circuit [of None "cart_backend [stringy_item]" "''7''" "JNum (Fin 2)"]
  by (simp add: no_token_def)

text \<open>
  The cart-clear operation itself never rejects, so the retry wrapper only ever meets the
  outcomes true and false of it.
\<close>

lemma clearCart_resolves: "\<exists>b. fst (clearCart token net) = Resolves b"
  by (auto simp add: clearCart_def Let_def split: option.splits)







section \<open>Properties of the order proxy endpoint\<close>

text \<open>
  C4, as the code has it. Without an authorization header the handler answers 401 with the
  body \<^verbatim>\<open>{success:false, message:"Authentication required"}\<close> and sends no request to
  the backend, and so it does for a header with an empty value. With a header that is not
  empty it sends one request to the backend; if the backend answers with a body that is
  JSON and a status from 200 to 599 that allows a body, the handler relays that status and
  body unchanged; if the request fails or the body is no JSON, it answers 500 with the
  body \<^verbatim>\<open>{success:false, message:"Internal server error"}\<close>.
\<close>

theorem orders_GET_contract:
  "orders_GET base None net =
     ((401, JObj [(''success'', JBool False), (''message'', JStr ''Authentication required'')]),
      []) \<and>
   orders_GET base (Some []) net =
     ((401, JObj [(''success'', JBool False), (''message'', JStr ''Authentication required'')]),
      []) \<and>
   (h \<noteq> [] \<and> net (orders_GET_request base h) = Some r \<and> json_body r = Some d \<and>
    200 \<le> status r \<and> status r \<le> 599 \<and> \<not> null_body_status (status r) \<longrightarrow>
      orders_GET base (Some h) net = ((status r, d), [Fetch (orders_GET_request base h)])) \<and>
   (h \<noteq> [] \<and> (net (orders_GET_request base h) = None \<or>
               (net (orders_GET_request base h) = Some r \<and> json_body r = None)) \<longrightarrow>
      orders_GET base (Some h) net =
        ((500, JObj [(''success'', JBool False), (''message'', JStr ''Internal server error'')]),
         [Fetch (orders_GET_request base h)]))"
  by (auto simp add: orders_GET_def authentication_required_def internal_server_error_def
      NextResponse_json_def Let_def)

text \<open>
  A backend that answers 200 with a list of orders is relayed; on a network where the
  request fails the answer is 500.
\<close>

theorem orders_GET_contract_witness:
  "orders_GET (Some ''http://backend/api'') (Some ''Bearer t0k3n'') orders_backend =
     ((200, JObj [(''success'', JBool True), (''data'', JArr [])]),
      [Fetch (orders_GET_request (Some ''http://backend/api'') ''Bearer t0k3n'')]) \<and>
   orders_GET (Some ''http://backend/api'') (Some ''Bearer t0k3n'') no_network =
     ((500, JObj [(''success'', JBool False), (''message'', JStr ''Internal server error'')]),
      [Fetch (orders_GET_request (Some ''http://backend/api'') ''Bearer t0k3n'')])"
  using orders_GET_contract [of "Some ''http://backend/api''" orders_backend "''Bearer t0k3n''"
      "\<lparr> status = 200, text_body = [],
         json_body = Some (JObj [(''success'', JBool True), (''data'', JArr [])]) \<rparr>"
      "JObj [(''success'', JBool True), (''data'', JArr [])]"]
    orders_GET_contract [of "Some ''http://backend/api''" no_network "''Bearer t0k3n''"]
  by (simp add: orders_backend_def no_network_def null_body_status_def)

text \<open>
  C4 as stated fails: with the header present, a backend that answers 502 with a body that
  is no JSON is not relayed; the handler answers 500.
\<close>

theorem orders_GET_relay_counterexample:
  "bad_gateway (orders_GET_request (Some ''http://backend/api'') ''Bearer t0k3n'') =
     Some \<lparr> status = 502, text_body = ''Bad Gateway'', json_body = None \<rparr> \<and>
   orders_GET (Some ''http://backend/api'') (Some ''Bearer t0k3n'') bad_gateway =
     ((500, JObj [(''success'', JBool False), (''message'', JStr ''Internal server error'')]),
      [Fetch (orders_GET_request (Some ''http://backend/api'') ''Bearer t0k3n'')]) \<and>
   fst (fst (orders_GET (Some ''http://backend/api'') (Some ''Bearer t0k3n'') bad_gateway)) \<noteq>
     status \<lparr> status = 502, text_body = ''Bad Gateway'', json_body = None :: jsval option \<rparr>"
  by (simp add: orders_GET_def bad_gateway_def internal_server_error_def Let_def)

section \<open>Properties of the product client\<close>

text \<open>
  C8, as the code has it. Of a response that is ok, \<^verbatim>\<open>getProducts\<close> returns a bare
  array as it is; from an envelope with \<^verbatim>\<open>success: true\<close> whose data is an array it
  returns that array; from one whose data is a single object it returns the list of that
  one object; and for a value that is no array and does not have both a truthy
  \<^verbatim>\<open>success\<close> and a truthy \<^verbatim>\<open>data\<close> it returns \<^verbatim>\<open>data.data || data || []\<close>,
  the first of the three that is truthy.
\<close>

theorem getProducts_normalization:
  "(d = JArr xs \<longrightarrow> getProducts (fetched d) = Resolves (JArr xs)) \<and>
   (d = JObj kvs \<and> map_of kvs ''success'' = Some (JBool True) \<and>
    map_of kvs ''data'' = Some (JArr xs) \<longrightarrow>
      getProducts (fetched d) = Resolves (JArr xs)) \<and>
   (d = JObj kvs \<and> map_of kvs ''success'' = Some (JBool True) \<and>
    map_of kvs ''data'' = Some (JObj single) \<longrightarrow>
      getProducts (fetched d) = Resolves (JArr [JObj single])) \<and>
   (\<not> isArray d \<and> member d ''success'' = Inr s \<and> member d ''data'' = Inr dd \<and>
    \<not> (truthy s \<and> truthy dd) \<longrightarrow>
      getProducts (fetched d) = Resolves (js_or dd (js_or d (JArr []))))"
  by (auto simp add: getProducts_def fetched_def ok_def js_and_def)

text \<open>
  The three shapes with one product, and the envelope without success whose data is 0,
  for which the envelope itself is returned.
\<close>

theorem getProducts_normalization_witness:
  "getProducts (fetched (JArr [JObj [(''id'', JNum (Fin 1))]])) =
     Resolves (JArr [JObj [(''id'', JNum (Fin 1))]]) \<and>
   getProducts (fetched (JObj [(''success'', JBool True),
                               (''data'', JArr [JObj [(''id'', JNum (Fin 1))]])])) =
     Resolves (JArr [JObj [(''id'', JNum (Fin 1))]]) \<and>
   getProducts (fetched (JObj [(''success'', JBool True),
                               (''data'', JObj [(''id'', JNum (Fin 1))])])) =
     Resolves (JArr [JObj [(''id'', JNum (Fin 1))]]) \<and>
   getProducts (fetched envelope_zero) = Resolves envelope_zero"
  using getProducts_normalization [of "JArr [JObj [(''id'', JNum (Fin 1))]]"
      "[JObj [(''id'', JNum (Fin 1))]]"]
    getProducts_normalization [of
      "JObj [(''success'', JBool True), (''data'', JArr [JObj [(''id'', JNum (Fin 1))]])]"
      "[JObj [(''id'', JNum (Fin 1))]]"
      "[(''success'', JBool True), (''data'', JArr [JObj [(''id'', JNum (Fin 1))]])]"]
    getProducts_normalization [of
      "JObj [(''success'', JBool True), (''data'', JObj [(''id'', JNum (Fin 1))])]" _
      "[(''success'', JBool True), (''data'', JObj [(''id'', JNum (Fin 1))])]"
      "[(''id'', JNum (Fin 1))]"]
    getProducts_normalization [of envelope_zero _ _ _ "JBool False" "JNum (Fin 0)"]
  by (simp add: envelope_zero_def js_or_def)

text \<open>
  C8 as stated fails: for the reply \<^verbatim>\<open>{success:false, data:0}\<close> the code returns the
  reply itself, where \<^verbatim>\<open>data.data ?? data ?? []\<close> is 0.
\<close>

theorem getProducts_fallback_counterexample:
  "getProducts (fetched envelope_zero) = Resolves envelope_zero \<and>
   spec_fallback (JNum (Fin 0)) envelope_zero = JNum (Fin 0) \<and>
   getProducts (fetched envelope_zero) \<noteq> Resolves (spec_fallback (JNum (Fin 0)) envelope_zero)"
  by (simp add: getProducts_def fetched_def ok_def envelope_zero_def js_and_def js_or_def
      spec_fallback_def nullish_or_def)

subsection \<open>Category names\<close>

lemmas table_defs = getProductDisplayName_def getCategoryFromDisplayName_def table_or_def
  table_get_def categoryMap_def displayMap_def Object_prototype_names_def

text \<open>
  A key that is in neither the table nor \<^verbatim>\<open>Object.prototype\<close> comes back unchanged.
\<close>

lemma table_or_unchanged:
  "map_of table k = None \<Longrightarrow> k \<notin> set Object_prototype_names \<Longrightarrow> table_or table k = Str k"
  by (simp add: table_or_def table_get_def)

text \<open>
  C10. The two functions are inverse to each other on the five category codes and their
  five display names. On the string \<^verbatim>\<open>constructor\<close>, which is in neither table, each
  of them returns the member \<^verbatim>\<open>constructor\<close> of \<^verbatim>\<open>Object.prototype\<close>, a function,
  and not its input.
\<close>

theorem category_names_evaluated:
  "getProductDisplayName ''E-Bike'' = Str ''Electric Bicycles'' \<and>
   getCategoryFromDisplayName ''Electric Bicycles'' = Str ''E-Bike'' \<and>
   getProductDisplayName ''E-Trike'' = Str ''Electric Tricycles'' \<and>
   getCategoryFromDisplayName ''Electric Tricycles'' = Str ''E-Trike'' \<and>
   getProductDisplayName ''E-Scooter'' = Str ''Electric Scooters'' \<and>
   getCategoryFromDisplayName ''Electric Scooters'' = Str ''E-Scooter'' \<and>
   getProductDisplayName ''E-Motorcycle'' = Str ''Electric Motorcycles'' \<and>
   getCategoryFromDisplayName ''Electric Motorcycles'' = Str ''E-Motorcycle'' \<and>
   getProductDisplayName ''E-Dump'' = Str ''Electric Dump Trucks'' \<and>
   getCategoryFromDisplayName ''Electric Dump Trucks'' = Str ''E-Dump'' \<and>
   getProductDisplayName ''constructor'' = Inherited ''constructor'' \<and>
   getProductDisplayName ''constructor'' \<noteq> Str ''constructor'' \<and>
   getCategoryFromDisplayName ''constructor'' = Inherited ''constructor'' \<and>
   getCategoryFromDisplayName ''constructor'' \<noteq> Str ''constructor''"
  by (simp add: table_defs)

section \<open>Properties of the checkout form\<close>

text \<open>The test of the email pattern is the match of the pattern.\<close>

lemma emailRegex_test_matches:
  "emailRegex_test s \<longleftrightarrow>
     (\<exists>a b c. s = a @ ''@'' @ b @ ''.'' @ c \<and> a \<noteq> [] \<and> b \<noteq> [] \<and> c \<noteq> [] \<and>
        list_all email_char a \<and> list_all email_char b \<and> list_all email_char c)"
proof
  assume t: "emailRegex_test s"
  define a where "a = takeWhile (\<lambda>c. c \<noteq> CHR ''@'') s"
  define r where "r = dropWhile (\<lambda>c. c \<noteq> CHR ''@'') s"
  from t have f: "a \<noteq> []" "list_all email_char a" "r \<noteq> []" "list_all email_char (tl r)"
    "CHR ''.'' \<in> set (butlast (tl (tl r)))"
    by (simp_all add: emailRegex_test_def a_def r_def Let_def)
  have s: "s = a @ r" by (simp add: a_def r_def)
  have "hd r = CHR ''@''"
    using hd_dropWhile [of "\<lambda>c. c \<noteq> CHR ''@''" s] f(3) by (simp add: r_def)
  with f(3) have r: "r = CHR ''@'' # tl r" by (cases r) simp_all
  from f(5) have "tl (tl r) \<noteq> []" by auto
  then obtain x d' where d: "tl r = x # d'" "d' \<noteq> []" by (cases "tl r") auto
  then obtain d'' z where d': "d' = d'' @ [z]" by (metis rev_exhaust)
  with f(5) d have "CHR ''.'' \<in> set d''" by simp
  then obtain u v where uv: "d'' = u @ CHR ''.'' # v" by (meson split_list)
  have "s = a @ ''@'' @ (x # u) @ ''.'' @ (v @ [z])"
    using s r d d' uv by (metis append_Cons append_Nil append_assoc)
  moreover have "list_all email_char (x # u)" "list_all email_char (v @ [z])"
    using f(4) d d' uv by simp_all
  ultimately show "\<exists>a b c. s = a @ ''@'' @ b @ ''.'' @ c \<and> a \<noteq> [] \<and> b \<noteq> [] \<and> c \<noteq> [] \<and>
      list_all email_char a \<and> list_all email_char b \<and> list_all email_char c"
    using f(1,2) by blast
next
  assume "\<exists>a b c. s = a @ ''@'' @ b @ ''.'' @ c \<and> a \<noteq> [] \<and> b \<noteq> [] \<and> c \<noteq> [] \<and>
      list_all email_char a \<and> list_all email_char b \<and> list_all email_char c"
  then obtain a b c where h: "s = a @ ''@'' @ b @ ''.'' @ c" "a \<noteq> []" "b \<noteq> []" "c \<noteq> []"
    "list_all email_char a" "list_all email_char b" "list_all email_char c"
    by blast
  have na: "\<forall>x \<in> set a. x \<noteq> CHR ''@''"
    using h(5) by (auto simp: list_all_iff email_char_def)
  have tw: "takeWhile (\<lambda>c. c \<noteq> CHR ''@'') s = a"
    using na h(1) by (simp add: takeWhile_tail)
  have dw: "dropWhile (\<lambda>c. c \<noteq> CHR ''@'') s = CHR ''@'' # b @ CHR ''.'' # c"
    using na h(1) by (simp add: dropWhile_append3 dropWhile_eq_Nil_conv)
  obtain x b' where b: "b = x # b'" using h(3) by (cases b) auto
  obtain c' z where c: "c = c' @ [z]" using h(4) by (metis rev_exhaust)
  have "butlast (tl (tl (CHR ''@'' # b @ CHR ''.'' # c))) = b' @ CHR ''.'' # c'"
    by (simp add: b c butlast_append)
  moreover have "email_char CHR ''.''"
    by (simp add: email_char_def is_ws_def)
  ultimately show "emailRegex_test s"
    using h tw dw by (simp add: emailRegex_test_def Let_def)
qed

lemma trim_empty_iff: "trim s = [] \<longleftrightarrow> list_all is_ws s"
proof -
  have "trim s = [] \<longleftrightarrow> (\<forall>x \<in> set (dropWhile is_ws s). is_ws x)"
    by (simp add: trim_def dropWhile_eq_Nil_conv)
  also have "\<dots> \<longleftrightarrow> dropWhile is_ws s = []"
  proof
    assume a: "\<forall>x \<in> set (dropWhile is_ws s). is_ws x"
    show "dropWhile is_ws s = []"
    proof (rule ccontr)
      assume ne: "dropWhile is_ws s \<noteq> []"
      then have "\<not> is_ws (hd (dropWhile is_ws s))" by (rule hd_dropWhile)
      moreover have "hd (dropWhile is_ws s) \<in> set (dropWhile is_ws s)" using ne by simp
      ultimately show False using a by blast
    qed
  qed (auto dest: set_dropWhileD)
  also have "\<dots> \<longleftrightarrow> list_all is_ws s"
    by (simp add: dropWhile_eq_Nil_conv list_all_iff)
  finally show ?thesis .
qed

lemma digit_not_ws: "is_digit c \<Longrightarrow> \<not> is_ws c"
  by (auto simp: is_digit_def is_ws_def)

lemma digits_not_blank: "phoneRegex_test p \<Longrightarrow> trim p \<noteq> []"
proof -
  assume a: "phoneRegex_test p"
  then obtain c cs where p: "p = c # cs" by (cases p) (simp_all add: phoneRegex_test_def)
  with a have "is_digit c" by (simp add: phoneRegex_test_def)
  then have "\<not> is_ws c" by (rule digit_not_ws)
  with p show ?thesis by (simp add: trim_empty_iff)
qed

lemma validateForm_accepts:
  "fst (validateForm info) \<longleftrightarrow>
     trim (firstName info) \<noteq> [] \<and> trim (lastName info) \<noteq> [] \<and> trim (email info) \<noteq> [] \<and>
     trim (phone info) \<noteq> [] \<and> trim (address info) \<noteq> [] \<and> trim (city info) \<noteq> [] \<and>
     trim (province info) \<noteq> [] \<and> trim (zipCode info) \<noteq> [] \<and>
     emailRegex_test (email info) \<and> phoneRegex_test (phone info) \<and>
     startsWith (phone info) ''09''"
  by (simp add: validateForm_def requiredFields_def)

lemma validateForm_no_request: "\<not> sends_request (snd (validateForm info))"
  by (simp add: validateForm_def requiredFields_def sends_request_def)

lemma handleSubmit_blocked:
  "\<not> fst (validateForm (shippingInfo pg)) \<Longrightarrow>
   \<not> sends_request (handleSubmit pg token net clear)"
  using validateForm_no_request [of "shippingInfo pg"]
  by (cases "validateForm (shippingInfo pg)") (simp add: handleSubmit_def sends_request_def)

lemma submit_order_sends: "sends_request (fst (submit_order pg token net clear))"
  by (simp add: submit_order_def sends_request_def Let_def
      split: option.splits sum.splits prod.splits)

lemma handleSubmit_sends:
  "fst (validateForm (shippingInfo pg)) \<Longrightarrow> sends_request (handleSubmit pg token net clear)"
  using submit_order_sends [of pg token net clear]
  by (cases "validateForm (shippingInfo pg)"; cases "submit_order pg token net clear")
    (simp add: handleSubmit_def sends_request_def)

text \<open>
  C9. On a form whose other fields pass, \<^verbatim>\<open>validateForm\<close> accepts the phone field
  exactly when it consists of exactly 11 digits and starts with \<^verbatim>\<open>09\<close>:
  \<^verbatim>\<open>09123456789\<close> passes, \<^verbatim>\<open>9123456789\<close> and \<^verbatim>\<open>0912345678\<close> fail. When the
  validation fails, \<^verbatim>\<open>handleSubmit\<close> sends no request; when it passes, the order
  request is sent.
\<close>

theorem validateForm_phone:
  assumes "trim (firstName info) \<noteq> []" "trim (lastName info) \<noteq> []" "trim (email info) \<noteq> []"
    "trim (address info) \<noteq> []" "trim (city info) \<noteq> []" "trim (province info) \<noteq> []"
    "trim (zipCode info) \<noteq> []" "emailRegex_test (email info)"
  shows "(fst (validateForm (info\<lparr>phone := p\<rparr>)) \<longleftrightarrow>
            length p = 11 \<and> list_all is_digit p \<and> take 2 p = ''09'') \<and>
         fst (validateForm (info\<lparr>phone := ''09123456789''\<rparr>)) \<and>
         \<not> fst (validateForm (info\<lparr>phone := ''9123456789''\<rparr>)) \<and>
         \<not> fst (validateForm (info\<lparr>phone := ''0912345678''\<rparr>)) \<and>
         (\<not> fst (validateForm (shippingInfo pg)) \<longrightarrow>
            \<not> sends_request (handleSubmit pg token net clear)) \<and>
         (fst (validateForm (shippingInfo pg)) \<longrightarrow>
            sends_request (handleSubmit pg token net clear))"
proof -
  have gen: "fst (validateForm (info\<lparr>phone := q\<rparr>)) \<longleftrightarrow>
      length q = 11 \<and> list_all is_digit q \<and> take 2 q = ''09''" for q
    using assms digits_not_blank [of q]
    by (auto simp add: validateForm_accepts phoneRegex_test_def startsWith_def numeral_2_eq_2)
  have "fst (validateForm (info\<lparr>phone := ''09123456789''\<rparr>))"
    unfolding gen by (simp add: is_digit_def)
  moreover have "\<not> fst (validateForm (info\<lparr>phone := ''9123456789''\<rparr>))"
    unfolding gen by simp
  moreover have "\<not> fst (validateForm (info\<lparr>phone := ''0912345678''\<rparr>))"
    unfolding gen by simp
  ultimately show ?thesis
    using gen [of p] handleSubmit_blocked handleSubmit_sends by blast
qed

lemma filled_form_fields:
  "trim (firstName filled_form) \<noteq> []" "trim (lastName filled_form) \<noteq> []"
  "trim (email filled_form) \<noteq> []" "trim (address filled_form) \<noteq> []"
  "trim (city filled_form) \<noteq> []" "trim (province filled_form) \<noteq> []"
  "trim (zipCode filled_form) \<noteq> []" "emailRegex_test (email filled_form)"
  by (simp_all add: filled_form_def trim_def is_ws_def emailRegex_test_def email_char_def)

text \<open>
  The filled form: with the phone \<^verbatim>\<open>09123456789\<close> it passes and the order is sent;
  with the phone \<^verbatim>\<open>0912345678\<close> it fails and nothing is sent.
\<close>

theorem validateForm_phone_witness:
  "trim (firstName filled_form) \<noteq> [] \<and> trim (lastName filled_form) \<noteq> [] \<and>
   trim (email filled_form) \<noteq> [] \<and> trim (address filled_form) \<noteq> [] \<and>
   trim (city filled_form) \<noteq> [] \<and> trim (province filled_form) \<noteq> [] \<and>
   trim (zipCode filled_form) \<noteq> [] \<and> emailRegex_test (email filled_form) \<and>
   fst (validateForm (filled_form\<lparr>phone := ''09123456789''\<rparr>)) \<and>
   sends_request (handleSubmit (page_of (filled_form\<lparr>phone := ''09123456789''\<rparr>))
     (Some ''t0k3n'') orders_backend always_failing) \<and>
   \<not> fst (validateForm (filled_form\<lparr>phone := ''0912345678''\<rparr>)) \<and>
   \<not> sends_request (handleSubmit (page_of (filled_form\<lparr>phone := ''0912345678''\<rparr>))
     (Some ''t0k3n'') orders_backend always_failing)"
  using filled_form_fields
    validateForm_phone [OF filled_form_fields,
      of "''09123456789''" "page_of (filled_form\<lparr>phone := ''09123456789''\<rparr>)"
         "Some ''t0k3n''" orders_backend always_failing]
    validateForm_phone [OF filled_form_fields,
      of "''0912345678''" "page_of (filled_form\<lparr>phone := ''0912345678''\<rparr>)"
         "Some ''t0k3n''" orders_backend always_failing]
  by (simp add: page_of_def)


end
